theory Spec2Isabelle
  imports Main "HOL-Library.Word"
begin

section \<open>The recorder window controller (recorderApp.ts)\<close>

text \<open>
  A shallow embedding of \<^verbatim>\<open>src/server/supplements/recorder/recorderApp.ts\<close>: the class
  \<^verbatim>\<open>RecorderApp\<close>, its request interceptor and the table \<^verbatim>\<open>extensionToMime\<close>.
  The browser engine behind \<^verbatim>\<open>Page\<close>, \<^verbatim>\<open>Frame\<close> and \<^verbatim>\<open>BrowserContext\<close>, the file system
  and the process environment are not part of the file: they are parameters (a record
  of oracles, \<open>env\<close>), and every claim is proved for all of them. Every awaited call is
  a value of \<open>error + 'a\<close>: \<open>Inl e\<close> is a rejected promise or a thrown exception.
\<close>

subsection \<open>JavaScript and Node primitives used by the file\<close>

type_synonym byte = "8 word"

datatype error =
    ModuleNotFound string   \<comment> \<open>thrown by \<^verbatim>\<open>require.resolve\<close>\<close>
  | ReadFileError string    \<comment> \<open>rejection of \<^verbatim>\<open>fs.promises.readFile\<close>\<close>
  | TypeError string        \<comment> \<open>a property read on \<^verbatim>\<open>undefined\<close>\<close>
  | EngineError string      \<comment> \<open>a rejection that comes from the browser engine\<close>

text \<open>\<^verbatim>\<open>String.prototype.startsWith\<close> and \<^verbatim>\<open>String.prototype.substring\<close> (one argument).\<close>

definition startsWith :: "string \<Rightarrow> string \<Rightarrow> bool" where
  "startsWith s p = (take (length p) s = p)"

definition substring :: "string \<Rightarrow> nat \<Rightarrow> string" where
  "substring s n = drop n s"

text \<open>
  A value read from \<^verbatim>\<open>process.env\<close> is a string or \<^verbatim>\<open>undefined\<close>; as a condition it
  holds when it is a non-empty string.
\<close>

definition truthy :: "string option \<Rightarrow> bool" where
  "truthy v = (case v of None \<Rightarrow> False | Some s \<Rightarrow> s \<noteq> [])"

text \<open>
  \<^verbatim>\<open>path.extname\<close> (posix), following Node's scan from the end of the path: \<open>startDot\<close>
  is the last dot of the last portion, \<open>preDotState\<close> tells whether a character other
  than a dot stands before it. Indices are integers, \<open>-1\<close> for "not found".
\<close>

record ext_scan =
  startDot :: int
  startPart :: int
  endPart :: int
  matchedSlash :: bool
  preDotState :: int
  stopped :: bool

definition ext_scan_init :: ext_scan where
  "ext_scan_init = \<lparr>startDot = -1, startPart = 0, endPart = -1, matchedSlash = True,
     preDotState = 0, stopped = False\<rparr>"

definition ext_scan_step :: "string \<Rightarrow> nat \<Rightarrow> ext_scan \<Rightarrow> ext_scan" where
  "ext_scan_step p i st =
     (let code = p ! i in
      if code = CHR ''/'' then
        (if \<not> matchedSlash st then st\<lparr>startPart := int i + 1, stopped := True\<rparr> else st)
      else
        (let st1 = (if endPart st = -1 then st\<lparr>matchedSlash := False, endPart := int i + 1\<rparr>
                    else st) in
         if code = CHR ''.'' then
           (if startDot st1 = -1 then st1\<lparr>startDot := int i\<rparr>
            else if preDotState st1 \<noteq> 1 then st1\<lparr>preDotState := 1\<rparr>
            else st1)
         else if startDot st1 \<noteq> -1 then st1\<lparr>preDotState := -1\<rparr>
         else st1))"

text \<open>The loop \<^verbatim>\<open>for (i = path.length - 1; i >= 0; --i)\<close>; \<open>n\<close> is \<open>i + 1\<close>.\<close>

fun ext_scan_loop :: "string \<Rightarrow> nat \<Rightarrow> ext_scan \<Rightarrow> ext_scan" where
  "ext_scan_loop p 0 st = st"
| "ext_scan_loop p (Suc i) st =
     (let st' = ext_scan_step p i st in
      if stopped st' then st' else ext_scan_loop p i st')"

definition extname :: "string \<Rightarrow> string" where
  "extname p =
     (let st = ext_scan_loop p (length p) ext_scan_init in
      if startDot st = -1 \<or> endPart st = -1 \<or> preDotState st = 0 \<or>
         (preDotState st = 1 \<and> startDot st = endPart st - 1 \<and> startDot st = startPart st + 1)
      then []
      else drop (nat (startDot st)) (take (nat (endPart st)) p))"

subsection \<open>The table \<^verbatim>\<open>extensionToMime\<close>\<close>

text \<open>
  A JavaScript object read by key: a key that is absent gives \<^verbatim>\<open>undefined\<close>, here
  \<open>None\<close>. The keys are tried in the order of the source.
\<close>

definition extensionToMime :: "string \<Rightarrow> string option" where
  "extensionToMime ext =
     (if ext = ''.css'' then Some ''text/css''
      else if ext = ''.html'' then Some ''text/html''
      else if ext = ''.jpeg'' then Some ''image/jpeg''
      else if ext = ''.js'' then Some ''application/javascript''
      else if ext = ''.png'' then Some ''image/png''
      else if ext = ''.ttf'' then Some ''font/ttf''
      else if ext = ''.svg'' then Some ''image/svg+xml''
      else if ext = ''.webp'' then Some ''image/webp''
      else if ext = ''.woff'' then Some ''font/woff''
      else if ext = ''.woff2'' then Some ''font/woff2''
      else None)"

definition mime_keys :: "string list" where
  "mime_keys = [''.css'', ''.html'', ''.jpeg'', ''.js'', ''.png'', ''.ttf'', ''.svg'',
     ''.webp'', ''.woff'', ''.woff2'']"


text \<open>
  \<^verbatim>\<open>Buffer.prototype.toString('base64')\<close>: three bytes become four characters of the
  standard alphabet, and the last group is padded with \<^verbatim>\<open>=\<close>.
\<close>

definition b64_alphabet :: string where
  "b64_alphabet = ''ABCDEFGHIJKLMNOPQRSTUVWXYZabcdefghijklmnopqrstuvwxyz0123456789+/''"

definition b64_char :: "nat \<Rightarrow> char" where
  "b64_char n = b64_alphabet ! n"

text \<open>
  The four six-bit values of a group of three bytes \<open>a\<close>, \<open>b\<close>, \<open>c\<close>; a group that
  lacks bytes is filled with zero bits, hence the \<open>0\<close> in the short cases below.
\<close>

definition sextet1 :: "byte \<Rightarrow> nat" where
  "sextet1 a = unat a div 4"

definition sextet2 :: "byte \<Rightarrow> byte \<Rightarrow> nat" where
  "sextet2 a b = unat a mod 4 * 16 + unat b div 16"

definition sextet3 :: "byte \<Rightarrow> byte \<Rightarrow> nat" where
  "sextet3 b c = unat b mod 16 * 4 + unat c div 64"

definition sextet4 :: "byte \<Rightarrow> nat" where
  "sextet4 c = unat c mod 64"

fun base64 :: "byte list \<Rightarrow> string" where
  "base64 [] = []"
| "base64 [a] =
     [b64_char (sextet1 a), b64_char (sextet2 a 0), CHR ''='', CHR ''='']"
| "base64 [a, b] =
     [b64_char (sextet1 a), b64_char (sextet2 a b), b64_char (sextet3 b 0), CHR ''='']"
| "base64 (a # b # c # rest) =
     [b64_char (sextet1 a), b64_char (sextet2 a b), b64_char (sextet3 b c),
      b64_char (sextet4 c)] @ base64 rest"

text \<open>
  The reading of a base64 body back into bytes, as the receiver of a response with
  \<^verbatim>\<open>isBase64: true\<close> does it; \<open>None\<close> when the text is not base64.
\<close>

primrec index_of :: "'a list \<Rightarrow> 'a \<Rightarrow> nat option" where
  "index_of [] x = None"
| "index_of (y # ys) x = (if x = y then Some 0 else map_option Suc (index_of ys x))"

definition b64_index :: "char \<Rightarrow> nat option" where
  "b64_index c = index_of b64_alphabet c"

definition b64_group3 :: "nat \<Rightarrow> nat \<Rightarrow> nat \<Rightarrow> nat \<Rightarrow> byte list" where
  "b64_group3 s1 s2 s3 s4 =
     [of_nat (s1 * 4 + s2 div 16), of_nat (s2 mod 16 * 16 + s3 div 4),
      of_nat (s3 mod 4 * 64 + s4)]"

fun base64_decode :: "string \<Rightarrow> byte list option" where
  "base64_decode [] = Some []"
| "base64_decode (c1 # c2 # c3 # c4 # rest) =
     (case (b64_index c1, b64_index c2) of
        (Some s1, Some s2) \<Rightarrow>
          (if c4 = CHR ''='' \<and> rest = [] then
             (if c3 = CHR ''='' then Some (take 1 (b64_group3 s1 s2 0 0))
              else (case b64_index c3 of
                      Some s3 \<Rightarrow> Some (take 2 (b64_group3 s1 s2 s3 0))
                    | None \<Rightarrow> None))
           else (case (b64_index c3, b64_index c4, base64_decode rest) of
                   (Some s3, Some s4, Some bs) \<Rightarrow> Some (b64_group3 s1 s2 s3 s4 @ bs)
                 | _ \<Rightarrow> None))
      | _ \<Rightarrow> None)"
| "base64_decode _ = None"

subsection \<open>\<^verbatim>\<open>EventEmitter\<close> (Node's \<^verbatim>\<open>events\<close>)\<close>

text \<open>
  \<^verbatim>\<open>RecorderApp\<close> extends \<^verbatim>\<open>EventEmitter\<close>, and \<^verbatim>\<open>Page\<close> is one too. An emitter keeps its
  listeners in the order they were added, each under an event name and with the mark of
  \<^verbatim>\<open>once\<close>. Adding a listener warns (once per event name) when the limit
  \<open>maxListeners\<close> is positive and more listeners than the limit stand under the name;
  the limit 0 means no limit, and the default is 10. \<^verbatim>\<open>emit\<close> calls the listeners of
  the name in order and removes those added with \<^verbatim>\<open>once\<close>; no listener is ever
  dropped because of the limit. A listener is known by the value it was registered with
  (a number for the host's listeners); what a listener does when it is called belongs to
  the host, and a call of a listener is taken to return.
\<close>

record 'l emitter =
  maxListeners :: nat
  registered :: "(string \<times> bool \<times> 'l) list"
  warned :: "string list"

definition defaultMaxListeners :: nat where
  "defaultMaxListeners = 10"

definition newEmitter :: "'l emitter" where
  "newEmitter = \<lparr>maxListeners = defaultMaxListeners, registered = [], warned = []\<rparr>"

definition listeners_for :: "string \<Rightarrow> (string \<times> bool \<times> 'l) list \<Rightarrow> 'l list" where
  "listeners_for name ls = map (\<lambda>(n, b, l). l) (filter (\<lambda>(n, b, l). n = name) ls)"

definition leak_warning :: "string \<Rightarrow> string" where
  "leak_warning name = ''Possible EventEmitter memory leak detected: '' @ name"

definition addListener ::
  "string \<Rightarrow> bool \<Rightarrow> 'l \<Rightarrow> ('l, 'z) emitter_scheme \<Rightarrow> ('l, 'z) emitter_scheme \<times> string option" where
  "addListener name once_flag l em =
     (let ls = registered em @ [(name, once_flag, l)];
          m = maxListeners em
      in if m > 0 \<and> length (listeners_for name ls) > m \<and> name \<notin> set (warned em)
         then (em\<lparr>registered := ls, warned := warned em @ [name]\<rparr>, Some (leak_warning name))
         else (em\<lparr>registered := ls\<rparr>, None))"

definition remove_once :: "string \<Rightarrow> ('l, 'z) emitter_scheme \<Rightarrow> ('l, 'z) emitter_scheme" where
  "remove_once name em =
     (let ls = filter (\<lambda>(n, b, l). \<not> (n = name \<and> b)) (registered em)
      in em\<lparr>registered := ls,
            warned := (if length (listeners_for name ls) \<le> 1
                       then filter (\<lambda>n. n \<noteq> name) (warned em) else warned em)\<rparr>)"

subsection \<open>Values exchanged with the window and the engine\<close>

datatype mode = none | recording | inspecting

text \<open>
  \<^verbatim>\<open>Source\<close>, \<^verbatim>\<open>CallLog\<close> and \<^verbatim>\<open>EventData\<close> are declared in \<^verbatim>\<open>recorderTypes\<close>; the file
  reads the field \<^verbatim>\<open>text\<close> of a \<^verbatim>\<open>Source\<close> (here \<open>sourceText\<close>) and nothing else of
  them. \<^verbatim>\<open>CallLog\<close> is the type variable \<open>'c\<close>, \<^verbatim>\<open>EventData\<close> the type variable \<open>'d\<close>.
\<close>

record source =
  sourceText :: string

type_synonym page = nat

text \<open>The function a push evaluates in the window's main frame, with its argument.\<close>

datatype 'c eval_call =
    PlaywrightSetMode mode
  | PlaywrightSetFile string
  | PlaywrightSetPaused bool
  | PlaywrightSetSources "source list"
  | PlaywrightSetSelector string "bool option"
  | PlaywrightUpdateLogs "'c list"

datatype 'c call =
    InstallAppIcon
  | SetServerRequestInterceptor
  | ExposeBinding string bool
  | Goto string
  | Eval "'c eval_call"
  | ContextClose
  | BringToFront

record launch_options =
  channel :: "string option"
  executablePath :: "string option"
  sdkLanguage :: string
  args :: "string list"
  noDefaultViewport :: bool
  headless :: bool
  useWebSocket :: bool

text \<open>An operation issued on the session: on a page (or its context), or at launch.\<close>

datatype 'c op =
    OnPage page "'c call"
  | LaunchPersistentContext launch_options
  | LoadDefaultContextAsIs

record response =
  status :: nat
  headers :: "(string \<times> string option) list"
  body :: string
  isBase64 :: bool

datatype route_call = Fulfill response | Continue

datatype 'd notification = Event 'd | Close

fun notification_name :: "'d notification \<Rightarrow> string" where
  "notification_name (Event d) = ''event''"
| "notification_name Close = ''close''"

text \<open>The one handler the file registers on the page, for the page's \<^verbatim>\<open>close\<close>.\<close>

datatype handler = CloseHandler

text \<open>What \<^verbatim>\<open>launchPersistentContext\<close> yields, as far as \<^verbatim>\<open>open\<close> reads it.\<close>

record launched =
  pages :: "page list"
  browser_wsEndpoint :: "string option"

text \<open>The inspected context, as far as \<^verbatim>\<open>open\<close> reads it.\<close>

record inspected =
  isChromium :: bool
  browser_channel :: "string option"
  customExecutablePath :: "string option"
  headful :: bool
  options_sdkLanguage :: string

text \<open>What reaches the controller from outside: the host's calls and the engine's callbacks.\<close>

datatype ('c, 'd) input =
    Dispatch 'd                 \<comment> \<open>the window's script calls the binding \<^verbatim>\<open>dispatch\<close>\<close>
  | PageClosed                  \<comment> \<open>the page emits \<^verbatim>\<open>close\<close>\<close>
  | Request string              \<comment> \<open>the page requests a URL\<close>
  | Subscribe string bool nat   \<comment> \<open>the host calls \<^verbatim>\<open>on\<close> or \<^verbatim>\<open>once\<close> of the controller\<close>
  | CallClose
  | CallBringToFront
  | CallSetMode mode
  | CallSetFile string
  | CallSetPaused bool
  | CallSetSources "source list"
  | CallSetSelector string "bool option"
  | CallUpdateCallLogs "'c list"

subsection \<open>The environment\<close>

text \<open>
  The engine has a state of its own, \<open>'w\<close>, of which nothing is assumed. It answers
  every operation the controller awaits (\<open>respond\<close>: \<open>None\<close> resolves, \<open>Some e\<close>
  rejects) and every call on an intercepted route, and it may change state at every
  event from outside (\<open>signal\<close>). The file system and the process environment are
  oracles too.
\<close>

record ('w, 'c, 'd) env =
  respond :: "'w \<Rightarrow> 'c op \<Rightarrow> error option \<times> 'w"
  route_respond :: "'w \<Rightarrow> route_call \<Rightarrow> error option \<times> 'w"
  signal :: "'w \<Rightarrow> ('c, 'd) input \<Rightarrow> 'w"
  launchPersistentContext :: "'w \<Rightarrow> launch_options \<Rightarrow> (error + launched) \<times> 'w"
  chromium_executablePath :: "'w \<Rightarrow> string option \<Rightarrow> error + string"
  existsAsync :: "'w \<Rightarrow> string \<Rightarrow> bool"
  require_resolve :: "'w \<Rightarrow> string \<Rightarrow> error + string"
  readFile :: "'w \<Rightarrow> string \<Rightarrow> error + byte list"
  process_env :: "string \<Rightarrow> string option"
  isUnderTest :: bool

text \<open>
  Everything observable: the engine's state, the operations issued on the session in
  order, the calls made on intercepted routes, the chunks written to standard output,
  the errors logged, the warnings, the notifications the controller emitted and their
  deliveries to listeners, and what the controller has installed on the page.
\<close>

record ('w, 'c, 'd) world =
  engine :: 'w
  trace :: "'c op list"
  routed :: "(string \<times> route_call) list"
  stdout :: "string list"
  console :: "error list"
  warnings :: "string list"
  emitted :: "'d notification list"
  delivered :: "(nat \<times> 'd notification) list"
  interceptor_installed :: bool
  bindings :: "string list"
  page_emitter :: "handler emitter"

definition fresh :: "'w \<Rightarrow> ('w, 'c, 'd) world" where
  "fresh e = \<lparr>engine = e, trace = [], routed = [], stdout = [], console = [], warnings = [],
     emitted = [], delivered = [], interceptor_installed = False, bindings = [],
     page_emitter = newEmitter\<rparr>"

record recorder_app = "nat emitter" +
  page :: page
  wsEndpoint :: "string option"


subsection \<open>Awaiting\<close>

text \<open>
  An asynchronous step is a function from the world to an outcome and the new world.
  \<open>await m f\<close> is \<^verbatim>\<open>const v = await m; f(v)\<close>: a rejection of \<open>m\<close> ends the function
  that awaits. \<open>catch m h\<close> is \<^verbatim>\<open>m.catch(h)\<close>: the handler's outcome replaces a
  rejection.
\<close>

definition await ::
  "('s \<Rightarrow> (error + 'a) \<times> 's) \<Rightarrow> ('a \<Rightarrow> 's \<Rightarrow> (error + 'b) \<times> 's) \<Rightarrow> 's \<Rightarrow> (error + 'b) \<times> 's" where
  "await m f w = (case m w of (Inl e, w') \<Rightarrow> (Inl e, w') | (Inr v, w') \<Rightarrow> f v w')"

definition catch ::
  "('s \<Rightarrow> (error + 'a) \<times> 's) \<Rightarrow> (error \<Rightarrow> 's \<Rightarrow> (error + 'a) \<times> 's) \<Rightarrow> 's \<Rightarrow> (error + 'a) \<times> 's" where
  "catch m h w = (case m w of (Inl e, w') \<Rightarrow> h e w' | (Inr v, w') \<Rightarrow> (Inr v, w'))"

definition resolved :: "'a \<Rightarrow> 's \<Rightarrow> (error + 'a) \<times> 's" where
  "resolved v w = (Inr v, w)"

definition rejected :: "error \<Rightarrow> 's \<Rightarrow> (error + 'a) \<times> 's" where
  "rejected e w = (Inl e, w)"

definition settle :: "error option \<Rightarrow> error + unit" where
  "settle r = (case r of None \<Rightarrow> Inr () | Some e \<Rightarrow> Inl e)"

text \<open>Issuing an operation on the session: it is recorded, and the engine answers.\<close>

definition issue ::
  "('w, 'c, 'd) env \<Rightarrow> 'c op \<Rightarrow> ('w, 'c, 'd) world \<Rightarrow> (error + unit) \<times> ('w, 'c, 'd) world" where
  "issue env x w =
     (let (r, e) = respond env (engine w) x
      in (settle r, w\<lparr>engine := e, trace := trace w @ [x]\<rparr>))"

definition launch ::
  "('w, 'c, 'd) env \<Rightarrow> launch_options \<Rightarrow> ('w, 'c, 'd) world
     \<Rightarrow> (error + launched) \<times> ('w, 'c, 'd) world" where
  "launch env opts w =
     (let (r, e) = launchPersistentContext env (engine w) opts
      in (r, w\<lparr>engine := e, trace := trace w @ [LaunchPersistentContext opts]\<rparr>))"

text \<open>A call on an intercepted route (\<^verbatim>\<open>route.fulfill\<close>, \<^verbatim>\<open>route.continue\<close>).\<close>

definition route ::
  "('w, 'c, 'd) env \<Rightarrow> string \<Rightarrow> route_call \<Rightarrow> ('w, 'c, 'd) world
     \<Rightarrow> (error + unit) \<times> ('w, 'c, 'd) world" where
  "route env url c w =
     (let (r, e) = route_respond env (engine w) c
      in (settle r, w\<lparr>engine := e, routed := routed w @ [(url, c)]\<rparr>))"

subsection \<open>The request interceptor (lines 58 to 74)\<close>

definition virtual_prefix :: string where
  "virtual_prefix = ''https://playwright/''"

definition bundle_root :: string where
  "bundle_root = ''../../../web/recorder/''"

definition interceptor ::
  "('w, 'c, 'd) env \<Rightarrow> string \<Rightarrow> ('w, 'c, 'd) world \<Rightarrow> (error + unit) \<times> ('w, 'c, 'd) world" where
  "interceptor env url w =
     (if startsWith url virtual_prefix then
        (let uri = substring url (length virtual_prefix) in
         case require_resolve env (engine w) (bundle_root @ uri) of
           Inl e \<Rightarrow> (Inl e, w)
         | Inr file \<Rightarrow>
             (case readFile env (engine w) file of
                Inl e \<Rightarrow> (Inl e, w)
              | Inr buffer \<Rightarrow>
                  route env url
                    (Fulfill \<lparr>status = 200,
                       headers = [(''Content-Type'', extensionToMime (extname file))],
                       body = base64 buffer,
                       isBase64 = True\<rparr>) w))
      else route env url Continue w)"

subsection \<open>The class \<^verbatim>\<open>RecorderApp\<close>\<close>

definition setMaxListeners :: "nat \<Rightarrow> ('l, 'z) emitter_scheme \<Rightarrow> ('l, 'z) emitter_scheme" where
  "setMaxListeners n em = em\<lparr>maxListeners := n\<rparr>"

text \<open>The constructor: \<^verbatim>\<open>super()\<close>, then \<^verbatim>\<open>setMaxListeners(0)\<close>, then the two fields.\<close>

definition RecorderApp :: "page \<Rightarrow> string option \<Rightarrow> recorder_app" where
  "RecorderApp p ws =
     setMaxListeners 0
       \<lparr>maxListeners = defaultMaxListeners, registered = [], warned = [],
        page = p, wsEndpoint = ws\<rparr>"

text \<open>
  \<^verbatim>\<open>this.emit(name, data)\<close>: the notification is recorded, every listener of its name is
  called in order, and the listeners added with \<^verbatim>\<open>once\<close> are removed.
\<close>

definition emit ::
  "'d notification \<Rightarrow> recorder_app \<Rightarrow> ('w, 'c, 'd) world \<Rightarrow> recorder_app \<times> ('w, 'c, 'd) world" where
  "emit n app w =
     (let name = notification_name n;
          targets = listeners_for name (registered app)
      in (remove_once name app,
          w\<lparr>emitted := emitted w @ [n],
            delivered := delivered w @ map (\<lambda>l. (l, n)) targets\<rparr>))"

text \<open>The host subscribes: \<^verbatim>\<open>on\<close> (or \<^verbatim>\<open>once\<close>) of the emitter the controller is.\<close>

definition subscribe ::
  "string \<Rightarrow> bool \<Rightarrow> nat \<Rightarrow> recorder_app \<Rightarrow> ('w, 'c, 'd) world
     \<Rightarrow> recorder_app \<times> ('w, 'c, 'd) world" where
  "subscribe name once_flag l app w =
     (let (app', warning) = addListener name once_flag l app
      in (app', w\<lparr>warnings := warnings w @ (case warning of None \<Rightarrow> [] | Some x \<Rightarrow> [x])\<rparr>))"

definition close ::
  "('w, 'c, 'd) env \<Rightarrow> recorder_app \<Rightarrow> ('w, 'c, 'd) world
     \<Rightarrow> (error + unit) \<times> ('w, 'c, 'd) world" where
  "close env app = await (issue env (OnPage (page app) ContextClose)) (\<lambda>_. resolved ())"

text \<open>The binding's callback, \<^verbatim>\<open>(_, data) => this.emit('event', data)\<close>.\<close>

definition dispatch_binding ::
  "'d \<Rightarrow> recorder_app \<Rightarrow> ('w, 'c, 'd) world \<Rightarrow> recorder_app \<times> ('w, 'c, 'd) world" where
  "dispatch_binding data app w = emit (Event data) app w"

text \<open>
  The listener of the page's \<^verbatim>\<open>close\<close> (lines 78 to 81): it emits \<^verbatim>\<open>close\<close>, then closes
  the context without awaiting; a rejection of that is logged by \<^verbatim>\<open>console.error\<close>.
\<close>

definition page_close_listener ::
  "('w, 'c, 'd) env \<Rightarrow> recorder_app \<Rightarrow> ('w, 'c, 'd) world \<Rightarrow> recorder_app \<times> ('w, 'c, 'd) world" where
  "page_close_listener env app w =
     (let (app1, w1) = emit Close app w;
          (r, w2) = catch (issue env (OnPage (page app) ContextClose))
                      (\<lambda>e s. (Inr (), s\<lparr>console := console s @ [e]\<rparr>)) w1
      in (app1, w2))"

definition entry_url :: string where
  "entry_url = ''https://playwright/index.html''"

definition init ::
  "('w, 'c, 'd) env \<Rightarrow> recorder_app \<Rightarrow> ('w, 'c, 'd) world
     \<Rightarrow> (error + unit) \<times> ('w, 'c, 'd) world" where
  "init env app =
     await (issue env (OnPage (page app) InstallAppIcon)) (\<lambda>_.
     await (issue env (OnPage (page app) SetServerRequestInterceptor)) (\<lambda>_.
     await (\<lambda>w. issue env (OnPage (page app) (ExposeBinding ''dispatch'' False))
                  (w\<lparr>interceptor_installed := True\<rparr>)) (\<lambda>_ w.
       (let w1 = w\<lparr>bindings := bindings w @ [''dispatch'']\<rparr>;
            (pe, warning) = addListener ''close'' True CloseHandler (page_emitter w1);
            w2 = w1\<lparr>page_emitter := pe,
                    warnings := warnings w1 @ (case warning of None \<Rightarrow> [] | Some x \<Rightarrow> [x])\<rparr>
        in await (issue env (OnPage (page app) (Goto entry_url))) (\<lambda>_. resolved ()) w2))))"

definition launch_args :: "('w, 'c, 'd) env \<Rightarrow> string list" where
  "launch_args env =
     [''--app=data:text/html,'', ''--window-size=600,600'', ''--window-position=1280,10'']
     @ (case process_env env ''PWTEST_RECORDER_PORT'' of
          None \<Rightarrow> []
        | Some port \<Rightarrow> if port \<noteq> [] then [''--remote-debugging-port='' @ port] else [])"

text \<open>
  The static \<^verbatim>\<open>open\<close> (lines 87 to 122), in the three parts it has: the choice of
  channel and executable (lines 96 to 103), the options of the launch (lines 104 to
  112), and the sequence of awaited steps. \<^verbatim>\<open>createPlaywright(true)\<close> only builds the
  object whose \<^verbatim>\<open>chromium\<close> is asked for the executable and the launch.
  \<^verbatim>\<open>const [page] = context.pages()\<close> gives \<^verbatim>\<open>undefined\<close> when the context has no page, and
  \<^verbatim>\<open>_init\<close> then fails on it.
\<close>

definition select_executable ::
  "('w, 'c, 'd) env \<Rightarrow> inspected \<Rightarrow> 'w \<Rightarrow> error + (string option \<times> string option)" where
  "select_executable env inspectedContext e =
     (if isChromium inspectedContext then
        (case chromium_executablePath env e (browser_channel inspectedContext) of
           Inl err \<Rightarrow> Inl err
         | Inr defaultExecutablePath \<Rightarrow>
             Inr (browser_channel inspectedContext,
                  if \<not> existsAsync env e defaultExecutablePath
                  then customExecutablePath inspectedContext else None))
      else Inr (None, None))"

definition launch_config ::
  "('w, 'c, 'd) env \<Rightarrow> inspected \<Rightarrow> string option \<Rightarrow> string option \<Rightarrow> launch_options" where
  "launch_config env inspectedContext ch exe =
     \<lparr>channel = ch,
      executablePath = exe,
      sdkLanguage = options_sdkLanguage inspectedContext,
      args = launch_args env,
      noDefaultViewport = True,
      headless = (truthy (process_env env ''PWTEST_CLI_HEADLESS'')
                  \<or> (isUnderTest env \<and> \<not> headful inspectedContext)),
      useWebSocket = truthy (process_env env ''PWTEST_RECORDER_PORT'')\<rparr>"

definition "open" ::
  "('w, 'c, 'd) env \<Rightarrow> inspected \<Rightarrow> ('w, 'c, 'd) world
     \<Rightarrow> (error + recorder_app) \<times> ('w, 'c, 'd) world" where
  "open env inspectedContext =
     await (\<lambda>w. (select_executable env inspectedContext (engine w), w)) (\<lambda>(ch, exe).
     await (launch env (launch_config env inspectedContext ch exe)) (\<lambda>context.
     await (issue env LoadDefaultContextAsIs) (\<lambda>_.
       (case pages context of
          [] \<Rightarrow> rejected (TypeError ''undefined page'')
        | p # _ \<Rightarrow>
            (let result = RecorderApp p (browser_wsEndpoint context)
             in await (init env result) (\<lambda>_. resolved result))))))"

subsection \<open>The State Push operations (lines 124 to 167)\<close>

definition eval ::
  "('w, 'c, 'd) env \<Rightarrow> recorder_app \<Rightarrow> 'c eval_call \<Rightarrow> ('w, 'c, 'd) world
     \<Rightarrow> (error + unit) \<times> ('w, 'c, 'd) world" where
  "eval env app c = issue env (OnPage (page app) (Eval c))"

definition setMode ::
  "('w, 'c, 'd) env \<Rightarrow> recorder_app \<Rightarrow> mode \<Rightarrow> ('w, 'c, 'd) world
     \<Rightarrow> (error + unit) \<times> ('w, 'c, 'd) world" where
  "setMode env app m =
     await (catch (eval env app (PlaywrightSetMode m)) (\<lambda>e. resolved ())) (\<lambda>_. resolved ())"

definition setFile ::
  "('w, 'c, 'd) env \<Rightarrow> recorder_app \<Rightarrow> string \<Rightarrow> ('w, 'c, 'd) world
     \<Rightarrow> (error + unit) \<times> ('w, 'c, 'd) world" where
  "setFile env app file =
     await (catch (eval env app (PlaywrightSetFile file)) (\<lambda>e. resolved ())) (\<lambda>_. resolved ())"

definition setPaused ::
  "('w, 'c, 'd) env \<Rightarrow> recorder_app \<Rightarrow> bool \<Rightarrow> ('w, 'c, 'd) world
     \<Rightarrow> (error + unit) \<times> ('w, 'c, 'd) world" where
  "setPaused env app paused =
     await (catch (eval env app (PlaywrightSetPaused paused)) (\<lambda>e. resolved ())) (\<lambda>_. resolved ())"

definition delimiter :: string where
  "delimiter = [CHR 0x0A] @ ''-------------8<-------------'' @ [CHR 0x0A]"

definition setSources ::
  "('w, 'c, 'd) env \<Rightarrow> recorder_app \<Rightarrow> source list \<Rightarrow> ('w, 'c, 'd) world
     \<Rightarrow> (error + unit) \<times> ('w, 'c, 'd) world" where
  "setSources env app sources =
     await (catch (eval env app (PlaywrightSetSources sources)) (\<lambda>e. resolved ())) (\<lambda>_ w.
       if truthy (process_env env ''PWTEST_CLI_EXIT'') \<and> length sources \<noteq> 0 then
         (Inr (), w\<lparr>stdout := stdout w @ [delimiter, sourceText (sources ! 0), delimiter]\<rparr>)
       else (Inr (), w))"

definition setSelector ::
  "('w, 'c, 'd) env \<Rightarrow> recorder_app \<Rightarrow> string \<Rightarrow> bool option \<Rightarrow> ('w, 'c, 'd) world
     \<Rightarrow> (error + unit) \<times> ('w, 'c, 'd) world" where
  "setSelector env app selector focus =
     await (catch (eval env app (PlaywrightSetSelector selector focus)) (\<lambda>e. resolved ()))
       (\<lambda>_. resolved ())"

definition updateCallLogs ::
  "('w, 'c, 'd) env \<Rightarrow> recorder_app \<Rightarrow> 'c list \<Rightarrow> ('w, 'c, 'd) world
     \<Rightarrow> (error + unit) \<times> ('w, 'c, 'd) world" where
  "updateCallLogs env app callLogs =
     await (catch (eval env app (PlaywrightUpdateLogs callLogs)) (\<lambda>e. resolved ()))
       (\<lambda>_. resolved ())"

definition bringToFront ::
  "('w, 'c, 'd) env \<Rightarrow> recorder_app \<Rightarrow> ('w, 'c, 'd) world
     \<Rightarrow> (error + unit) \<times> ('w, 'c, 'd) world" where
  "bringToFront env app = await (issue env (OnPage (page app) BringToFront)) (\<lambda>_. resolved ())"

subsection \<open>Executions\<close>

text \<open>
  The page emits \<^verbatim>\<open>close\<close>: the listeners the controller registered under that name are
  called in order, those registered with \<^verbatim>\<open>once\<close> having been removed first.
\<close>

definition run_handler ::
  "('w, 'c, 'd) env \<Rightarrow> recorder_app \<times> ('w, 'c, 'd) world \<Rightarrow> handler
     \<Rightarrow> recorder_app \<times> ('w, 'c, 'd) world" where
  "run_handler env s h = (case h of CloseHandler \<Rightarrow> page_close_listener env (fst s) (snd s))"

definition page_emits_close ::
  "('w, 'c, 'd) env \<Rightarrow> recorder_app \<Rightarrow> ('w, 'c, 'd) world \<Rightarrow> recorder_app \<times> ('w, 'c, 'd) world" where
  "page_emits_close env app w =
     (let targets = listeners_for ''close'' (registered (page_emitter w));
          w1 = w\<lparr>page_emitter := remove_once ''close'' (page_emitter w)\<rparr>
      in foldl (run_handler env) (app, w1) targets)"

text \<open>
  One event from outside, handled to its end. The binding can be called once it is
  exposed, and requests reach the interceptor once it is installed. The outcome of a
  host's call is dropped here: the claims about outcomes are stated on the operations.
\<close>

definition step ::
  "('w, 'c, 'd) env \<Rightarrow> recorder_app \<times> ('w, 'c, 'd) world \<Rightarrow> ('c, 'd) input
     \<Rightarrow> recorder_app \<times> ('w, 'c, 'd) world" where
  "step env s i =
     (let app = fst s;
          w = (snd s)\<lparr>engine := signal env (engine (snd s)) i\<rparr>
      in case i of
           Dispatch d \<Rightarrow>
             (if ''dispatch'' \<in> set (bindings w) then dispatch_binding d app w else (app, w))
         | PageClosed \<Rightarrow> page_emits_close env app w
         | Request url \<Rightarrow>
             (if interceptor_installed w then (app, snd (interceptor env url w)) else (app, w))
         | Subscribe name once_flag l \<Rightarrow> subscribe name once_flag l app w
         | CallClose \<Rightarrow> (app, snd (close env app w))
         | CallBringToFront \<Rightarrow> (app, snd (bringToFront env app w))
         | CallSetMode m \<Rightarrow> (app, snd (setMode env app m w))
         | CallSetFile f \<Rightarrow> (app, snd (setFile env app f w))
         | CallSetPaused b \<Rightarrow> (app, snd (setPaused env app b w))
         | CallSetSources ss \<Rightarrow> (app, snd (setSources env app ss w))
         | CallSetSelector sel focus \<Rightarrow> (app, snd (setSelector env app sel focus w))
         | CallUpdateCallLogs ls \<Rightarrow> (app, snd (updateCallLogs env app ls w)))"

definition run ::
  "('w, 'c, 'd) env \<Rightarrow> recorder_app \<times> ('w, 'c, 'd) world \<Rightarrow> ('c, 'd) input list
     \<Rightarrow> recorder_app \<times> ('w, 'c, 'd) world" where
  "run env s ins = foldl (step env) s ins"


subsection \<open>Reading an execution\<close>

text \<open>
  The payloads of the \<^verbatim>\<open>event\<close> notifications in a list of notifications, and the
  payloads of the calls of the binding in a list of inputs, both in order.
\<close>

fun payloads :: "'d notification list \<Rightarrow> 'd list" where
  "payloads [] = []"
| "payloads (Event d # ns) = d # payloads ns"
| "payloads (Close # ns) = payloads ns"

fun dispatched :: "('c, 'd) input list \<Rightarrow> 'd list" where
  "dispatched [] = []"
| "dispatched (Dispatch d # ins) = d # dispatched ins"
| "dispatched (i # ins) = dispatched ins"

subsection \<open>A concrete environment, for evaluation\<close>

text \<open>
  An engine in which every operation resolves, a bundle of two files
  (\<^verbatim>\<open>index.html\<close> and \<^verbatim>\<open>data.json\<close>), and the switch \<^verbatim>\<open>PWTEST_CLI_EXIT\<close> set. The
  engine's state counts the operations it has answered.
\<close>

definition demo_resolve :: "string \<Rightarrow> error + string" where
  "demo_resolve p =
     (if p = ''../../../web/recorder/index.html'' then Inr ''/web/recorder/index.html''
      else if p = ''../../../web/recorder/data.json'' then Inr ''/web/recorder/data.json''
      else Inl (ModuleNotFound p))"

definition demo_readFile :: "string \<Rightarrow> error + byte list" where
  "demo_readFile f =
     (if f = ''/web/recorder/index.html'' then Inr [0x3C, 0x68, 0x31, 0x3E]
      else if f = ''/web/recorder/data.json'' then Inr [0x7B, 0x7D]
      else Inl (ReadFileError f))"

definition demo_env :: "(nat, nat, nat) env" where
  "demo_env =
     \<lparr>respond = (\<lambda>w x. (None, Suc w)),
      route_respond = (\<lambda>w c. (None, Suc w)),
      signal = (\<lambda>w i. w),
      launchPersistentContext =
        (\<lambda>w opts. (Inr \<lparr>pages = [7], browser_wsEndpoint = None\<rparr>, Suc w)),
      chromium_executablePath = (\<lambda>w ch. Inr ''/opt/chromium/chrome''),
      existsAsync = (\<lambda>w p. True),
      require_resolve = (\<lambda>w. demo_resolve),
      readFile = (\<lambda>w. demo_readFile),
      process_env = (\<lambda>name. if name = ''PWTEST_CLI_EXIT'' then Some ''1'' else None),
      isUnderTest = False\<rparr>"

text \<open>The same engine with the window gone: every operation on the page rejects.\<close>

definition closed_env :: "(nat, nat, nat) env" where
  "closed_env = demo_env\<lparr>respond := (\<lambda>w x. (Some (EngineError ''Target closed''), Suc w))\<rparr>"

text \<open>The same engine, but the launch of the persistent context fails.\<close>

definition no_launch_env :: "(nat, nat, nat) env" where
  "no_launch_env = demo_env\<lparr>launchPersistentContext :=
     (\<lambda>w opts. (Inl (EngineError ''Failed to launch''), Suc w))\<rparr>"

text \<open>The options \<^verbatim>\<open>open\<close> computes for \<open>demo_inspected\<close> below.\<close>

definition demo_options :: launch_options where
  "demo_options = \<lparr>channel = None, executablePath = None, sdkLanguage = ''javascript'',
     args = [''--app=data:text/html,'', ''--window-size=600,600'', ''--window-position=1280,10''],
     noDefaultViewport = True, headless = False, useWebSocket = False\<rparr>"

definition demo_inspected :: inspected where
  "demo_inspected = \<lparr>isChromium = True, browser_channel = None,
     customExecutablePath = None, headful = True, options_sdkLanguage = ''javascript''\<rparr>"

text \<open>
  The controller and the world right after \<^verbatim>\<open>open\<close> has resolved in \<open>demo_env\<close>, from
  the fresh world.
\<close>

definition demo_ready :: "recorder_app \<times> (nat, nat, nat) world" where
  "demo_ready =
     (RecorderApp 7 None,
      (fresh 0)\<lparr>engine := 6,
         trace := [LaunchPersistentContext demo_options, LoadDefaultContextAsIs,
                   OnPage 7 InstallAppIcon, OnPage 7 SetServerRequestInterceptor,
                   OnPage 7 (ExposeBinding ''dispatch'' False), OnPage 7 (Goto entry_url)],
         interceptor_installed := True, bindings := [''dispatch''],
         page_emitter := \<lparr>maxListeners = 10, registered = [(''close'', True, CloseHandler)],
                           warned = []\<rparr>\<rparr>)"

section \<open>Properties\<close>

subsection \<open>Base64 is read back to the bytes it encodes\<close>

lemma index_of_nth:
  "distinct xs \<Longrightarrow> n < length xs \<Longrightarrow> index_of xs (xs ! n) = Some n"
proof (induction xs arbitrary: n)
  case Nil
  then show ?case by simp
next
  case (Cons y ys)
  show ?case
  proof (cases n)
    case 0
    then show ?thesis by simp
  next
    case (Suc k)
    with Cons.prems have "k < length ys" and "ys ! k \<in> set ys" and "y \<notin> set ys" and "distinct ys"
      by auto
    then have "ys ! k \<noteq> y" and "index_of ys (ys ! k) = Some k"
      using Cons.IH by auto
    then show ?thesis using Suc by simp
  qed
qed

lemma b64_alphabet_length: "length b64_alphabet = 64"
  by (simp add: b64_alphabet_def)

lemma b64_alphabet_no_pad: "CHR ''='' \<notin> set b64_alphabet"
  by (simp add: b64_alphabet_def)

lemma b64_alphabet_distinct: "distinct b64_alphabet"
  by (simp add: b64_alphabet_def)

lemma b64_index_char: "n < 64 \<Longrightarrow> b64_index (b64_char n) = Some n"
  by (simp add: b64_index_def b64_char_def index_of_nth b64_alphabet_distinct b64_alphabet_length)

lemma b64_char_no_pad: "n < 64 \<Longrightarrow> b64_char n \<noteq> CHR ''=''"
proof -
  assume "n < 64"
  then have "b64_alphabet ! n \<in> set b64_alphabet"
    by (simp add: b64_alphabet_length)
  with b64_alphabet_no_pad show ?thesis
    unfolding b64_char_def by metis
qed

lemma byte_bound: "unat (a :: byte) < 256"
  using unsigned_less [of a, where ?'a = nat] by simp

lemma join_arith1: fixes x y :: nat assumes "y < 256"
  shows "x div 4 * 4 + (x mod 4 * 16 + y div 16) div 16 = x"
proof -
  have "y div 16 < 16" using assms by simp
  then have "(x mod 4 * 16 + y div 16) div 16 = x mod 4" by simp
  then show ?thesis by simp
qed
lemma join_arith2: fixes x y z :: nat assumes "y < 256" "z < 256"
  shows "(x mod 4 * 16 + y div 16) mod 16 * 16 + (y mod 16 * 4 + z div 64) div 4 = y"
proof -
  have "y div 16 < 16" "z div 64 < 4" using assms by simp_all
  then have "(x mod 4 * 16 + y div 16) mod 16 = y div 16" "(y mod 16 * 4 + z div 64) div 4 = y mod 16"
    by simp_all
  then show ?thesis by simp
qed
lemma join_arith3: fixes y z :: nat assumes "z < 256"
  shows "(y mod 16 * 4 + z div 64) mod 4 * 64 + z mod 64 = z"
proof -
  have "z div 64 < 4" using assms by simp
  then have "(y mod 16 * 4 + z div 64) mod 4 = z div 64" by simp
  then show ?thesis by simp
qed

lemma sextet_bounds:
  "sextet1 a < 64" "sextet2 a b < 64" "sextet3 b c < 64" "sextet4 c < 64"
  using byte_bound [of a] byte_bound [of b] byte_bound [of c]
  by (simp_all add: sextet1_def sextet2_def sextet3_def sextet4_def)

lemma sextet_join1: "of_nat (sextet1 a * 4 + sextet2 a b div 16) = a"
  unfolding sextet1_def sextet2_def by (simp only: join_arith1 [OF byte_bound]) simp

lemma sextet_join2: "of_nat (sextet2 a b mod 16 * 16 + sextet3 b c div 4) = b"
  unfolding sextet2_def sextet3_def by (simp only: join_arith2 [OF byte_bound byte_bound]) simp

lemma sextet_join3: "of_nat (sextet3 b c mod 4 * 64 + sextet4 c) = c"
  unfolding sextet3_def sextet4_def by (simp only: join_arith3 [OF byte_bound]) simp

lemma b64_group3_join:
  "b64_group3 (sextet1 a) (sextet2 a b) (sextet3 b c) (sextet4 c) = [a, b, c]"
  by (simp only: b64_group3_def sextet_join1 sextet_join2 sextet_join3)

lemma b64_group3_join2:
  "take 2 (b64_group3 (sextet1 a) (sextet2 a b) (sextet3 b 0) 0) = [a, b]"
proof -
  have "take 2 (b64_group3 (sextet1 a) (sextet2 a b) (sextet3 b 0) 0)
          = [of_nat (sextet1 a * 4 + sextet2 a b div 16),
             of_nat (sextet2 a b mod 16 * 16 + sextet3 b 0 div 4)]"
    unfolding b64_group3_def by simp
  then show ?thesis by (simp only: sextet_join1 sextet_join2)
qed

lemma b64_group3_join1:
  "take 1 (b64_group3 (sextet1 a) (sextet2 a 0) 0 0) = [a]"
proof -
  have "take 1 (b64_group3 (sextet1 a) (sextet2 a 0) 0 0)
          = [of_nat (sextet1 a * 4 + sextet2 a 0 div 16)]"
    unfolding b64_group3_def by simp
  then show ?thesis by (simp only: sextet_join1)
qed

lemma base64_roundtrip: "base64_decode (base64 bs) = Some bs"
proof (induction bs rule: base64.induct)
  case 1
  then show ?case by simp
next
  case (2 a)
  show ?case
    using b64_group3_join1 [of a] by (simp add: b64_index_char sextet_bounds)
next
  case (3 a b)
  show ?case
    by (simp add: b64_index_char b64_char_no_pad sextet_bounds b64_group3_join2)
next
  case (4 a b c rest)
  then show ?case
    by (simp add: b64_index_char b64_char_no_pad sextet_bounds b64_group3_join)
qed

subsection \<open>What one awaited operation changes\<close>

lemma issue_eq:
  "issue env x w =
     (settle (fst (respond env (engine w) x)),
      w\<lparr>engine := snd (respond env (engine w) x), trace := trace w @ [x]\<rparr>)"
  by (simp add: issue_def split: prod.splits)

lemma route_eq:
  "route env url c w =
     (settle (fst (route_respond env (engine w) c)),
      w\<lparr>engine := snd (route_respond env (engine w) c), routed := routed w @ [(url, c)]\<rparr>)"
  by (simp add: route_def split: prod.splits)

lemma launch_eq:
  "launch env opts w =
     (fst (launchPersistentContext env (engine w) opts),
      w\<lparr>engine := snd (launchPersistentContext env (engine w) opts),
        trace := trace w @ [LaunchPersistentContext opts]\<rparr>)"
  by (simp add: launch_def split: prod.splits)

lemma swallow_eq:
  "await (catch m (\<lambda>e. resolved ())) k w = k () (snd (m w))"
  by (simp add: await_def catch_def resolved_def split: prod.splits sum.splits)

lemma extensionToMime_None_iff: "extensionToMime ext = None \<longleftrightarrow> ext \<notin> set mime_keys"
  by (simp add: extensionToMime_def mime_keys_def)

lemma index_html_extname: "extname ''/web/recorder/index.html'' = ''.html''"
  by code_simp

lemma data_json_extname: "extname ''/web/recorder/data.json'' = ''.json''"
  by code_simp

lemma index_html_base64: "base64 [0x3C, 0x68, 0x31, 0x3E] = ''PGgxPg==''"
  by code_simp

lemma data_json_base64: "base64 [0x7B, 0x7D] = ''e30=''"
  by code_simp

lemmas demo_defs = demo_env_def demo_resolve_def demo_readFile_def closed_env_def
  demo_inspected_def fresh_def newEmitter_def defaultMaxListeners_def

lemmas url_defs = startsWith_def substring_def virtual_prefix_def bundle_root_def

subsection \<open>What one event changes\<close>

lemma emit_eq:
  "emit n app w =
     (remove_once (notification_name n) app,
      w\<lparr>emitted := emitted w @ [n],
        delivered := delivered w @
          map (\<lambda>l. (l, n)) (listeners_for (notification_name n) (registered app))\<rparr>)"
  by (simp add: emit_def Let_def)

lemma page_remove_once: "page (remove_once name app) = page app"
  by (simp add: remove_once_def Let_def)

lemma page_close_listener_frame:
  "emitted (snd (page_close_listener env app w)) = emitted w @ [Close]"
  "trace (snd (page_close_listener env app w)) = trace w @ [OnPage (page app) ContextClose]"
  "bindings (snd (page_close_listener env app w)) = bindings w"
  "page_emitter (snd (page_close_listener env app w)) = page_emitter w"
  "interceptor_installed (snd (page_close_listener env app w)) = interceptor_installed w"
  "page (fst (page_close_listener env app w)) = page app"
  by (simp_all add: page_close_listener_def emit_eq catch_def issue_eq settle_def
      page_remove_once split: option.splits)

lemma handlers_frame:
  "emitted (snd (foldl (run_handler env) (app, w) hs)) = emitted w @ replicate (length hs) Close \<and>
   trace (snd (foldl (run_handler env) (app, w) hs))
     = trace w @ replicate (length hs) (OnPage (page app) ContextClose) \<and>
   bindings (snd (foldl (run_handler env) (app, w) hs)) = bindings w \<and>
   page_emitter (snd (foldl (run_handler env) (app, w) hs)) = page_emitter w \<and>
   interceptor_installed (snd (foldl (run_handler env) (app, w) hs)) = interceptor_installed w \<and>
   page (fst (foldl (run_handler env) (app, w) hs)) = page app"
proof (induction hs arbitrary: app w)
  case Nil
  then show ?case by simp
next
  case (Cons h hs)
  obtain app1 w1 where step1: "page_close_listener env app w = (app1, w1)"
    by (cases "page_close_listener env app w")
  have h: "run_handler env (app, w) h = (app1, w1)"
    by (cases h) (simp add: run_handler_def step1)
  have frame: "emitted w1 = emitted w @ [Close]"
    "trace w1 = trace w @ [OnPage (page app) ContextClose]"
    "bindings w1 = bindings w" "page_emitter w1 = page_emitter w"
    "interceptor_installed w1 = interceptor_installed w" "page app1 = page app"
    using page_close_listener_frame [of env app w] by (simp_all add: step1)
  show ?case
    using Cons.IH [of app1 w1] by (simp add: h frame replicate_app_Cons_same)
qed


lemma interceptor_frame:
  "emitted (snd (interceptor env url w)) = emitted w"
  "trace (snd (interceptor env url w)) = trace w"
  "bindings (snd (interceptor env url w)) = bindings w"
  "page_emitter (snd (interceptor env url w)) = page_emitter w"
  "interceptor_installed (snd (interceptor env url w)) = interceptor_installed w"
  by (simp_all add: interceptor_def route_eq Let_def split: sum.splits)

lemma setSources_frame:
  "emitted (snd (setSources env app sources w)) = emitted w"
  "trace (snd (setSources env app sources w))
     = trace w @ [OnPage (page app) (Eval (PlaywrightSetSources sources))]"
  "bindings (snd (setSources env app sources w)) = bindings w"
  "page_emitter (snd (setSources env app sources w)) = page_emitter w"
  "interceptor_installed (snd (setSources env app sources w)) = interceptor_installed w"
  by (simp_all add: setSources_def swallow_eq eval_def issue_eq)

lemma subscribe_frame:
  "emitted (snd (subscribe name b l app w)) = emitted w"
  "trace (snd (subscribe name b l app w)) = trace w"
  "bindings (snd (subscribe name b l app w)) = bindings w"
  "page_emitter (snd (subscribe name b l app w)) = page_emitter w"
  "interceptor_installed (snd (subscribe name b l app w)) = interceptor_installed w"
  "page (fst (subscribe name b l app w)) = page app"
  by (simp_all add: subscribe_def addListener_def Let_def split: prod.splits)

lemma await_resolved_world: "snd (await m resolved w) = snd (m w)"
  by (simp add: await_def resolved_def split: prod.splits sum.splits)

lemma call_world:
  "snd (setMode env app m w) = snd (eval env app (PlaywrightSetMode m) w)"
  "snd (setFile env app file w) = snd (eval env app (PlaywrightSetFile file) w)"
  "snd (setPaused env app paused w) = snd (eval env app (PlaywrightSetPaused paused) w)"
  "snd (setSelector env app selector focus w)
     = snd (eval env app (PlaywrightSetSelector selector focus) w)"
  "snd (updateCallLogs env app callLogs w) = snd (eval env app (PlaywrightUpdateLogs callLogs) w)"
  "snd (close env app w) = snd (issue env (OnPage (page app) ContextClose) w)"
  "snd (bringToFront env app w) = snd (issue env (OnPage (page app) BringToFront) w)"
  by (simp_all add: setMode_def setFile_def setPaused_def setSelector_def updateCallLogs_def
      swallow_eq resolved_def close_def bringToFront_def await_resolved_world)

lemmas call_defs = call_world eval_def issue_eq

lemma step_bindings: "bindings (snd (step env s i)) = bindings (snd s)"
  by (cases i)
    (simp_all add: step_def Let_def dispatch_binding_def emit_eq page_emits_close_def
      handlers_frame interceptor_frame subscribe_frame setSources_frame call_defs)

lemma step_page: "page (fst (step env s i)) = page (fst s)"
  by (cases i)
    (simp_all add: step_def Let_def dispatch_binding_def emit_eq page_emits_close_def
      handlers_frame subscribe_frame page_remove_once)

lemma step_emitted:
  "emitted (snd (step env s i)) =
     emitted (snd s) @
       (case i of
          Dispatch d \<Rightarrow> if ''dispatch'' \<in> set (bindings (snd s)) then [Event d] else []
        | PageClosed \<Rightarrow>
            replicate (length (listeners_for ''close'' (registered (page_emitter (snd s))))) Close
        | _ \<Rightarrow> [])"
  by (cases i)
    (simp_all add: step_def Let_def dispatch_binding_def emit_eq page_emits_close_def
      handlers_frame interceptor_frame subscribe_frame setSources_frame call_defs)

lemma step_page_emitter:
  "page_emitter (snd (step env s i)) =
     (if i = PageClosed then remove_once ''close'' (page_emitter (snd s))
      else page_emitter (snd s))"
  by (cases i)
    (simp_all add: step_def Let_def dispatch_binding_def emit_eq page_emits_close_def
      handlers_frame interceptor_frame subscribe_frame setSources_frame call_defs)

lemma step_trace:
  "trace (snd (step env s i)) =
     trace (snd s) @
       (case i of
          Dispatch d \<Rightarrow> []
        | PageClosed \<Rightarrow>
            replicate (length (listeners_for ''close'' (registered (page_emitter (snd s)))))
              (OnPage (page (fst s)) ContextClose)
        | Request url \<Rightarrow> []
        | Subscribe name b l \<Rightarrow> []
        | CallClose \<Rightarrow> [OnPage (page (fst s)) ContextClose]
        | CallBringToFront \<Rightarrow> [OnPage (page (fst s)) BringToFront]
        | CallSetMode m \<Rightarrow> [OnPage (page (fst s)) (Eval (PlaywrightSetMode m))]
        | CallSetFile f \<Rightarrow> [OnPage (page (fst s)) (Eval (PlaywrightSetFile f))]
        | CallSetPaused b \<Rightarrow> [OnPage (page (fst s)) (Eval (PlaywrightSetPaused b))]
        | CallSetSources ss \<Rightarrow> [OnPage (page (fst s)) (Eval (PlaywrightSetSources ss))]
        | CallSetSelector sel focus \<Rightarrow>
            [OnPage (page (fst s)) (Eval (PlaywrightSetSelector sel focus))]
        | CallUpdateCallLogs ls \<Rightarrow> [OnPage (page (fst s)) (Eval (PlaywrightUpdateLogs ls))])"
  by (cases i)
    (simp_all add: step_def Let_def dispatch_binding_def emit_eq page_emits_close_def
      handlers_frame interceptor_frame subscribe_frame setSources_frame call_defs)

lemma run_Cons: "run env s (i # ins) = run env (step env s i) ins"
  by (simp add: run_def)

lemma run_Nil: "run env s [] = s"
  by (simp add: run_def)

lemma run_bindings: "bindings (snd (run env s ins)) = bindings (snd s)"
  by (induction ins arbitrary: s) (simp_all add: run_Nil run_Cons step_bindings)

lemma payloads_append: "payloads (xs @ ys) = payloads xs @ payloads ys"
  by (induction xs rule: payloads.induct) simp_all

lemma payloads_replicate_Close: "payloads (replicate k Close) = []"
  by (induction k) simp_all

lemma run_payloads:
  "''dispatch'' \<in> set (bindings (snd s)) \<Longrightarrow>
   payloads (emitted (snd (run env s ins))) = payloads (emitted (snd s)) @ dispatched ins"
proof (induction ins arbitrary: s)
  case Nil
  then show ?case by (simp add: run_Nil)
next
  case (Cons i ins)
  have "''dispatch'' \<in> set (bindings (snd (step env s i)))"
    using Cons.prems by (simp add: step_bindings)
  then have "payloads (emitted (snd (run env (step env s i) ins)))
      = payloads (emitted (snd (step env s i))) @ dispatched ins"
    by (rule Cons.IH)
  then show ?case
    using Cons.prems
    by (cases i) (simp_all add: run_Cons step_emitted payloads_append payloads_replicate_Close)
qed

lemma run_dispatches:
  "''dispatch'' \<in> set (bindings (snd s)) \<Longrightarrow>
   emitted (snd (run env s (map Dispatch ds))) = emitted (snd s) @ map Event ds"
proof (induction ds arbitrary: s)
  case Nil
  then show ?case by (simp add: run_Nil)
next
  case (Cons d ds)
  have "''dispatch'' \<in> set (bindings (snd (step env s (Dispatch d))))"
    using Cons.prems by (simp add: step_bindings)
  then have "emitted (snd (run env (step env s (Dispatch d)) (map Dispatch ds)))
      = emitted (snd (step env s (Dispatch d))) @ map Event ds"
    by (rule Cons.IH)
  then show ?case
    using Cons.prems by (simp add: run_Cons step_emitted)
qed

lemma run_close_count_after:
  "registered (page_emitter (snd s)) = [] \<Longrightarrow>
   count_list (emitted (snd (run env s ins))) Close = count_list (emitted (snd s)) Close"
proof (induction ins arbitrary: s)
  case Nil
  then show ?case by (simp add: run_Nil)
next
  case (Cons i ins)
  have "registered (page_emitter (snd (step env s i))) = []"
    using Cons.prems by (simp add: step_page_emitter remove_once_def Let_def)
  then have "count_list (emitted (snd (run env (step env s i) ins))) Close
      = count_list (emitted (snd (step env s i))) Close"
    by (rule Cons.IH)
  then show ?case
    using Cons.prems
    by (cases i) (simp_all add: run_Cons step_emitted listeners_for_def)
qed

lemma run_close_count:
  "registered (page_emitter (snd s)) = [(''close'', True, CloseHandler)] \<Longrightarrow>
   count_list (emitted (snd (run env s ins))) Close
     = count_list (emitted (snd s)) Close + (if PageClosed \<in> set ins then 1 else 0)"
proof (induction ins arbitrary: s)
  case Nil
  then show ?case by (simp add: run_Nil)
next
  case (Cons i ins)
  show ?case
  proof (cases "i = PageClosed")
    case True
    have "registered (page_emitter (snd (step env s i))) = []"
      using Cons.prems True by (simp add: step_page_emitter remove_once_def Let_def)
    then have "count_list (emitted (snd (run env (step env s i) ins))) Close
        = count_list (emitted (snd (step env s i))) Close"
      by (rule run_close_count_after)
    then show ?thesis
      using Cons.prems True by (simp add: run_Cons step_emitted listeners_for_def)
  next
    case False
    have "registered (page_emitter (snd (step env s i))) = [(''close'', True, CloseHandler)]"
      using Cons.prems False by (simp add: step_page_emitter)
    then have "count_list (emitted (snd (run env (step env s i) ins))) Close
        = count_list (emitted (snd (step env s i))) Close
          + (if PageClosed \<in> set ins then 1 else 0)"
      by (rule Cons.IH)
    then show ?thesis
      using False by (cases i) (simp_all add: run_Cons step_emitted)
  qed
qed

subsection \<open>The State Push operations\<close>

text \<open>
  C1. Each of the six push operations (setMode, setFile, setPaused, setSources,
  setSelector, updateCallLogs) resolves, for every argument, every engine and every state
  of the engine and of the world: whatever the evaluation in the page answers, a rejection
  included, the outcome of the call is a resolution.
\<close>

theorem push_never_rejects:
  "fst (setMode env app m w) = Inr () \<and>
   fst (setFile env app file w) = Inr () \<and>
   fst (setPaused env app paused w) = Inr () \<and>
   fst (setSources env app sources w) = Inr () \<and>
   fst (setSelector env app selector focus w) = Inr () \<and>
   fst (updateCallLogs env app callLogs w) = Inr ()"
  by (simp add: setMode_def setFile_def setPaused_def setSources_def setSelector_def
      updateCallLogs_def swallow_eq resolved_def)

theorem push_never_rejects_witness:
  "fst (respond closed_env 0 (OnPage 7 (Eval (PlaywrightSetFile ''x''))))
     = Some (EngineError ''Target closed'') \<and>
   fst (setFile closed_env (RecorderApp 7 None) ''x'' (fresh 0)) = Inr () \<and>
   fst (setSources closed_env (RecorderApp 7 None) [] (fresh 0)) = Inr ()"
  using push_never_rejects [of closed_env "RecorderApp 7 None" _ "fresh 0" "''x''" _ "[]"]
  by (simp add: demo_defs)

text \<open>
  C6. setSources writes, after its push and whatever the push answered, the delimiter,
  the text of the first source and the delimiter again to standard output when
  \<^verbatim>\<open>PWTEST_CLI_EXIT\<close> is set to a non-empty string and the list of sources is not empty;
  otherwise it writes nothing.
\<close>

theorem setSources_stdout:
  "stdout (snd (setSources env app sources w)) =
     stdout w @ (if truthy (process_env env ''PWTEST_CLI_EXIT'') \<and> sources \<noteq> []
                 then [delimiter, sourceText (hd sources), delimiter] else [])"
  by (cases sources) (simp_all add: setSources_def swallow_eq eval_def issue_eq)

theorem setSources_stdout_witness:
  "stdout (snd (setSources closed_env (RecorderApp 7 None)
      [\<lparr>sourceText = ''page.click()''\<rparr>, \<lparr>sourceText = ''other''\<rparr>] (fresh 0)))
     = [delimiter, ''page.click()'', delimiter] \<and>
   stdout (snd (setSources demo_env (RecorderApp 7 None) [] (fresh 0))) = [] \<and>
   stdout (snd (setSources (demo_env\<lparr>process_env := (\<lambda>name. None)\<rparr>) (RecorderApp 7 None)
      [\<lparr>sourceText = ''page.click()''\<rparr>] (fresh 0))) = []"
  using setSources_stdout [of closed_env "RecorderApp 7 None"
      "[\<lparr>sourceText = ''page.click()''\<rparr>, \<lparr>sourceText = ''other''\<rparr>]" "fresh 0"]
    setSources_stdout [of demo_env "RecorderApp 7 None" "[]" "fresh 0"]
    setSources_stdout [of "demo_env\<lparr>process_env := (\<lambda>name. None)\<rparr>" "RecorderApp 7 None"
      "[\<lparr>sourceText = ''page.click()''\<rparr>]" "fresh 0"]
  by (simp add: demo_defs truthy_def)

subsection \<open>The request interceptor\<close>

text \<open>
  C2. A request whose URL starts with \<^verbatim>\<open>https://playwright/\<close> and whose stripped path
  resolves to a file that can be read is fulfilled with status 200, the one header
  Content-Type with the table's entry for the extension of the resolved file, and the
  file's bytes in base64 (marked as such), which read back to exactly those bytes. A
  request whose URL does not start with the prefix is continued, with no change.
\<close>

theorem interceptor_serves_bundle:
  "(startsWith url virtual_prefix \<and>
    require_resolve env (engine w) (bundle_root @ substring url (length virtual_prefix)) = Inr file \<and>
    readFile env (engine w) file = Inr bytes \<longrightarrow>
      routed (snd (interceptor env url w)) =
        routed w @ [(url, Fulfill \<lparr>status = 200,
                           headers = [(''Content-Type'', extensionToMime (extname file))],
                           body = base64 bytes, isBase64 = True\<rparr>)] \<and>
      base64_decode (base64 bytes) = Some bytes) \<and>
   (\<not> startsWith url virtual_prefix \<longrightarrow>
      routed (snd (interceptor env url w)) = routed w @ [(url, Continue)])"
  by (simp add: interceptor_def route_eq base64_roundtrip)

theorem interceptor_serves_bundle_witness:
  "routed (snd (interceptor demo_env ''https://playwright/index.html'' (fresh 0))) =
     [(''https://playwright/index.html'',
       Fulfill \<lparr>status = 200, headers = [(''Content-Type'', Some ''text/html'')],
                body = ''PGgxPg=='', isBase64 = True\<rparr>)] \<and>
   base64_decode ''PGgxPg=='' = Some [0x3C, 0x68, 0x31, 0x3E] \<and>
   routed (snd (interceptor demo_env ''https://example.com/index.html'' (fresh 0))) =
     [(''https://example.com/index.html'', Continue)]"
  using interceptor_serves_bundle [of "''https://playwright/index.html''" demo_env "fresh 0"
      "''/web/recorder/index.html''" "[0x3C, 0x68, 0x31, 0x3E]"]
    interceptor_serves_bundle [of "''https://example.com/index.html''" demo_env "fresh 0"]
  by (simp add: demo_defs url_defs index_html_extname index_html_base64 extensionToMime_def
      del: base64.simps base64_decode.simps)

text \<open>
  C9, as the code has it. For a request under the prefix whose resolved file has an
  extension that is not a key of the table, the response is fulfilled with a Content-Type
  header whose value is undefined: the table is read and nothing replaces a missing
  entry.
\<close>

theorem interceptor_unlisted_extension:
  assumes "startsWith url virtual_prefix"
    and "require_resolve env (engine w) (bundle_root @ substring url (length virtual_prefix)) = Inr file"
    and "readFile env (engine w) file = Inr bytes"
    and "extname file \<notin> set mime_keys"
  shows "routed (snd (interceptor env url w)) =
        routed w @ [(url, Fulfill \<lparr>status = 200, headers = [(''Content-Type'', None)],
                           body = base64 bytes, isBase64 = True\<rparr>)]"
  using assms by (simp add: interceptor_def route_eq extensionToMime_None_iff)

theorem interceptor_unlisted_extension_witness:
  "routed (snd (interceptor demo_env ''https://playwright/data.json'' (fresh 0))) =
     [(''https://playwright/data.json'',
       Fulfill \<lparr>status = 200, headers = [(''Content-Type'', None)],
                body = ''e30='', isBase64 = True\<rparr>)]"
  using interceptor_unlisted_extension [of "''https://playwright/data.json''" demo_env "fresh 0"
      "''/web/recorder/data.json''" "[0x7B, 0x7D]"]
  by (simp add: demo_defs url_defs data_json_extname data_json_base64 mime_keys_def
      del: base64.simps)

text \<open>
  The claim C9 as stated fails: \<^verbatim>\<open>data.json\<close> is a file of the bundle, its extension is
  not a key of the table, and the header's value is undefined, not an octet-stream type.
\<close>

theorem octet_stream_fallback_counterexample:
  "extname ''/web/recorder/data.json'' \<notin> set mime_keys \<and>
   require_resolve demo_env 0 (bundle_root @ ''data.json'') = Inr ''/web/recorder/data.json'' \<and>
   map (\<lambda>(u, c). case c of Fulfill r \<Rightarrow> map_of (headers r) ''Content-Type'' | Continue \<Rightarrow> None)
       (routed (snd (interceptor demo_env ''https://playwright/data.json'' (fresh 0))))
     = [Some None] \<and>
   Some None \<noteq> Some (Some ''application/octet-stream'')"
  by (simp add: interceptor_def route_eq demo_defs url_defs data_json_extname
      extensionToMime_def mime_keys_def)

subsection \<open>Bootstrap and initialization\<close>

text \<open>
  C7. When the launch of the persistent context rejects, or the loading of the default
  context rejects after a launch that succeeded, \<^verbatim>\<open>open\<close> rejects with that very error;
  the session has then seen one launch (and, in the second case, one load) and nothing
  else: no second attempt, no recovery.
\<close>

theorem open_propagates_bootstrap_failure:
  assumes "select_executable env inspectedContext (engine w) = Inr (ch, exe)"
    and "opts = launch_config env inspectedContext ch exe"
  shows "(launchPersistentContext env (engine w) opts = (Inl err, e_launch) \<longrightarrow>
            open env inspectedContext w =
              (Inl err, w\<lparr>engine := e_launch, trace := trace w @ [LaunchPersistentContext opts]\<rparr>)) \<and>
         (launchPersistentContext env (engine w) opts = (Inr launched_context, e_launch) \<and>
          respond env e_launch LoadDefaultContextAsIs = (Some err, e_load) \<longrightarrow>
            open env inspectedContext w =
              (Inl err, w\<lparr>engine := e_load,
                 trace := trace w @ [LaunchPersistentContext opts, LoadDefaultContextAsIs]\<rparr>))"
  using assms by (simp add: open_def await_def launch_eq issue_eq settle_def)

lemma demo_select:
  "select_executable demo_env demo_inspected (engine (fresh 0)) = Inr (None, None)"
  "select_executable no_launch_env demo_inspected (engine (fresh 0)) = Inr (None, None)"
  "select_executable closed_env demo_inspected (engine (fresh 0)) = Inr (None, None)"
  by (simp_all add: select_executable_def demo_defs no_launch_env_def)

lemma demo_config:
  "demo_options = launch_config demo_env demo_inspected None None"
  "demo_options = launch_config no_launch_env demo_inspected None None"
  "demo_options = launch_config closed_env demo_inspected None None"
  by (simp_all add: launch_config_def launch_args_def truthy_def demo_defs demo_options_def
      no_launch_env_def)

theorem open_propagates_bootstrap_failure_witness:
  "open no_launch_env demo_inspected (fresh 0) =
     (Inl (EngineError ''Failed to launch''),
      (fresh 0)\<lparr>engine := 1, trace := [LaunchPersistentContext demo_options]\<rparr>) \<and>
   open closed_env demo_inspected (fresh 0) =
     (Inl (EngineError ''Target closed''),
      (fresh 0)\<lparr>engine := 2,
         trace := [LaunchPersistentContext demo_options, LoadDefaultContextAsIs]\<rparr>)"
  using open_propagates_bootstrap_failure [OF demo_select(2) demo_config(2),
      where err = "EngineError ''Failed to launch''" and e_launch = 1]
    open_propagates_bootstrap_failure [OF demo_select(3) demo_config(3),
      where launched_context = "\<lparr>pages = [7], browser_wsEndpoint = None\<rparr>"
      and e_launch = 1 and err = "EngineError ''Target closed''" and e_load = 2]
  by (simp add: demo_defs no_launch_env_def)

text \<open>
  What \<^verbatim>\<open>_init\<close> issues on the session: the icon, the interceptor, the binding and the
  navigation, in this order, up to the first of them that rejects.
\<close>

lemma init_cases:
  "(\<exists>e w'. init env app w = (Inl e, w') \<and> trace w' = trace w @ [OnPage (page app) InstallAppIcon]) \<or>
   (\<exists>e w'. init env app w = (Inl e, w') \<and> trace w' = trace w @ [OnPage (page app) InstallAppIcon, OnPage (page app) SetServerRequestInterceptor]) \<or>
   (\<exists>e w'. init env app w = (Inl e, w') \<and> trace w' = trace w @ [OnPage (page app) InstallAppIcon, OnPage (page app) SetServerRequestInterceptor, OnPage (page app) (ExposeBinding ''dispatch'' False)]) \<or>
   (\<exists>r w'. init env app w = (r, w') \<and> trace w' = trace w @ [OnPage (page app) InstallAppIcon, OnPage (page app) SetServerRequestInterceptor, OnPage (page app) (ExposeBinding ''dispatch'' False), OnPage (page app) (Goto entry_url)]
       \<and> interceptor_installed w' \<and> bindings w' = bindings w @ [''dispatch''])"
  by (auto simp add: init_def await_def issue_eq settle_def resolved_def Let_def split: option.splits prod.splits)


text \<open>
  C8. Among the operations \<^verbatim>\<open>_init\<close> issues, the installation of the interceptor and
  the exposure of the binding \<^verbatim>\<open>dispatch\<close> occur at most once each; when the navigation
  to \<^verbatim>\<open>https://playwright/index.html\<close> is issued, each has occurred exactly once, before
  it, and has resolved (the interceptor is installed, the binding exposed); and an
  initialization that resolves has issued the navigation.
\<close>

theorem init_installs_once_before_navigation:
  assumes "init env app w = (r, w')" and "trace w' = trace w @ t"
  shows "count_list t (OnPage (page app) SetServerRequestInterceptor) \<le> 1 \<and>
         count_list t (OnPage (page app) (ExposeBinding ''dispatch'' False)) \<le> 1 \<and>
         (OnPage (page app) (Goto entry_url) \<in> set t \<longrightarrow>
            t = [OnPage (page app) InstallAppIcon,
                 OnPage (page app) SetServerRequestInterceptor,
                 OnPage (page app) (ExposeBinding ''dispatch'' False),
                 OnPage (page app) (Goto entry_url)] \<and>
            interceptor_installed w' \<and> ''dispatch'' \<in> set (bindings w')) \<and>
         (r = Inr () \<longrightarrow> OnPage (page app) (Goto entry_url) \<in> set t)"
  using init_cases [of env app w] assms by (elim disjE exE conjE) auto


theorem init_installs_once_before_navigation_witness:
  "init demo_env (RecorderApp 7 None) (fresh 0) =
     (Inr (),
      (fresh 0)\<lparr>engine := 4,
         trace := [OnPage 7 InstallAppIcon, OnPage 7 SetServerRequestInterceptor,
                   OnPage 7 (ExposeBinding ''dispatch'' False), OnPage 7 (Goto entry_url)],
         interceptor_installed := True, bindings := [''dispatch''],
         page_emitter := \<lparr>maxListeners = 10, registered = [(''close'', True, CloseHandler)],
                           warned = []\<rparr>\<rparr>) \<and>
   count_list [OnPage 7 InstallAppIcon, OnPage 7 SetServerRequestInterceptor,
               OnPage 7 (ExposeBinding ''dispatch'' False), OnPage 7 (Goto entry_url)]
     (OnPage 7 SetServerRequestInterceptor) \<le> (1 :: nat)"
proof -
  have run: "init demo_env (RecorderApp 7 None) (fresh 0) =
     (Inr (),
      (fresh 0)\<lparr>engine := 4,
         trace := [OnPage 7 InstallAppIcon, OnPage 7 SetServerRequestInterceptor,
                   OnPage 7 (ExposeBinding ''dispatch'' False), OnPage 7 (Goto entry_url)],
         interceptor_installed := True, bindings := [''dispatch''],
         page_emitter := \<lparr>maxListeners = 10, registered = [(''close'', True, CloseHandler)],
                           warned = []\<rparr>\<rparr>)"
    by (simp add: init_def await_def issue_eq settle_def resolved_def addListener_def
        listeners_for_def RecorderApp_def setMaxListeners_def demo_defs)
  have page7: "page (RecorderApp 7 None) = 7"
    by (simp add: RecorderApp_def setMaxListeners_def)
  have empty_trace: "trace (fresh 0 :: (nat, nat, nat) world) = []"
    by (simp add: fresh_def)
  show ?thesis
    using init_installs_once_before_navigation [OF run, where
        t = "[OnPage 7 InstallAppIcon, OnPage 7 SetServerRequestInterceptor,
              OnPage 7 (ExposeBinding ''dispatch'' False), OnPage 7 (Goto entry_url)]"]
    by (simp add: run page7 empty_trace)
qed

subsection \<open>After a successful \<^verbatim>\<open>open\<close>\<close>

lemma init_ready:
  "init env app w = (Inr (), w') \<Longrightarrow>
   emitted w' = emitted w \<and> bindings w' = bindings w @ [''dispatch''] \<and>
   interceptor_installed w' \<and>
   registered (page_emitter w') = registered (page_emitter w) @ [(''close'', True, CloseHandler)]"
  by (auto simp add: init_def await_def issue_eq settle_def resolved_def Let_def addListener_def
      split: option.splits prod.splits if_splits)

lemma open_ready:
  "open env inspectedContext (fresh e) = (Inr app, w) \<Longrightarrow>
   emitted w = [] \<and> ''dispatch'' \<in> set (bindings w) \<and>
   registered (page_emitter w) = [(''close'', True, CloseHandler)]"
  by (auto simp add: open_def await_def launch_eq issue_eq rejected_def resolved_def Let_def
      fresh_def newEmitter_def settle_def
      split: sum.splits prod.splits list.splits option.splits if_splits dest!: init_ready)


lemma demo_open:
  "open demo_env demo_inspected (fresh 0) =
     (Inr (RecorderApp 7 None),
      (fresh 0)\<lparr>engine := 6,
         trace := [LaunchPersistentContext demo_options, LoadDefaultContextAsIs,
                   OnPage 7 InstallAppIcon, OnPage 7 SetServerRequestInterceptor,
                   OnPage 7 (ExposeBinding ''dispatch'' False), OnPage 7 (Goto entry_url)],
         interceptor_installed := True, bindings := [''dispatch''],
         page_emitter := \<lparr>maxListeners = 10, registered = [(''close'', True, CloseHandler)],
                           warned = []\<rparr>\<rparr>)"
  by (simp add: open_def select_executable_def launch_config_def launch_args_def truthy_def
      launch_eq init_def await_def issue_eq settle_def resolved_def addListener_def
      listeners_for_def RecorderApp_def setMaxListeners_def demo_defs demo_options_def)


subsection \<open>The binding channel and the close event\<close>

text \<open>
  C3. After \<^verbatim>\<open>open\<close> has resolved, in every execution the payloads of the \<^verbatim>\<open>event\<close>
  notifications the controller emits are exactly the payloads of the calls of the binding
  \<^verbatim>\<open>dispatch\<close>, in the order of the calls, whatever else happens in between; and N calls
  in a row with payloads d1 .. dN make the controller emit exactly \<^verbatim>\<open>event\<close> d1 ..
  \<^verbatim>\<open>event\<close> dN.
\<close>

theorem dispatch_relayed_in_order:
  assumes "open env inspectedContext (fresh e) = (Inr app, w)"
  shows "payloads (emitted (snd (run env (app, w) ins))) = dispatched ins \<and>
         emitted (snd (run env (app, w) (map Dispatch ds))) = map Event ds"
  using open_ready [OF assms] run_payloads [of "(app, w)" env ins]
    run_dispatches [of "(app, w)" env ds]
  by simp

theorem dispatch_relayed_in_order_witness:
  "payloads (emitted (snd (run demo_env demo_ready
      [Dispatch 1, CallSetMode recording, Dispatch 2, PageClosed, Dispatch 3]))) = [1, 2, 3] \<and>
   emitted (snd (run demo_env demo_ready (map Dispatch [4, 5, 6]))) = [Event 4, Event 5, Event 6]"
  using dispatch_relayed_in_order [OF demo_open,
      of "[Dispatch 1, CallSetMode recording, Dispatch 2, PageClosed, Dispatch 3]" "[4, 5, 6]"]
  by (simp add: demo_ready_def)

text \<open>
  C4. After \<^verbatim>\<open>open\<close> has resolved, in every execution (every interleaving of window
  closures, explicit calls of close, pushes and calls of the binding) the controller
  emits \<^verbatim>\<open>close\<close> exactly once if the page signals its closure at least once, and not
  at all otherwise: never more than once.
\<close>

theorem close_emitted_once:
  assumes "open env inspectedContext (fresh e) = (Inr app, w)"
  shows "count_list (emitted (snd (run env (app, w) ins))) Close
           = (if PageClosed \<in> set ins then 1 else 0)"
  using open_ready [OF assms] run_close_count [of "(app, w)" env ins]
  by simp

theorem close_emitted_once_witness:
  "count_list (emitted (snd (run demo_env demo_ready
      [CallClose, PageClosed, CallClose, PageClosed]))) Close = 1 \<and>
   count_list (emitted (snd (run demo_env demo_ready [PageClosed]))) Close = 1 \<and>
   count_list (emitted (snd (run demo_env demo_ready [CallSetMode recording, Dispatch 1])))
     Close = 0"
  using close_emitted_once [OF demo_open, of "[CallClose, PageClosed, CallClose, PageClosed]"]
    close_emitted_once [OF demo_open, of "[PageClosed]"]
    close_emitted_once [OF demo_open, of "[CallSetMode recording, Dispatch 1]"]
  by (simp add: demo_ready_def)

text \<open>
  C5, as the code has it. The controller keeps no mark of being closed: every call of
  close, in every state, issues exactly one close of the context on the session and
  emits nothing; and the listener of the page's closure emits \<^verbatim>\<open>close\<close> and then issues
  one close of the context.
\<close>

theorem close_always_issues_context_close:
  "trace (snd (step env s CallClose)) = trace (snd s) @ [OnPage (page (fst s)) ContextClose] \<and>
   emitted (snd (step env s CallClose)) = emitted (snd s) \<and>
   trace (snd (close env app w)) = trace w @ [OnPage (page app) ContextClose] \<and>
   emitted (snd (page_close_listener env app w)) = emitted w @ [Close] \<and>
   trace (snd (page_close_listener env app w)) = trace w @ [OnPage (page app) ContextClose]"
  by (simp add: step_trace step_emitted call_defs page_close_listener_frame)

text \<open>
  The claim C5 as stated fails: after the page has closed and \<^verbatim>\<open>close\<close> has been emitted,
  a call of close issues one more operation on the session.
\<close>

theorem close_after_closed_counterexample:
  "Close \<in> set (emitted (snd (run demo_env demo_ready [PageClosed]))) \<and>
   trace (snd (run demo_env demo_ready [PageClosed, CallClose]))
     = trace (snd (run demo_env demo_ready [PageClosed])) @ [OnPage 7 ContextClose] \<and>
   trace (snd (run demo_env demo_ready [PageClosed, CallClose]))
     \<noteq> trace (snd (run demo_env demo_ready [PageClosed]))"
  by (simp add: run_Cons run_Nil step_trace step_emitted step_page step_page_emitter
      demo_ready_def fresh_def listeners_for_def RecorderApp_def setMaxListeners_def)

subsection \<open>Listeners\<close>

lemma run_subscribe:
  "maxListeners (fst s) = 0 \<Longrightarrow>
   registered (fst (run env s (map (\<lambda>(name, b, l). Subscribe name b l) subs)))
     = registered (fst s) @ subs \<and>
   warnings (snd (run env s (map (\<lambda>(name, b, l). Subscribe name b l) subs)))
     = warnings (snd s)"
proof (induction subs arbitrary: s)
  case Nil
  then show ?case by (simp add: run_Nil)
next
  case (Cons x subs)
  obtain name b l where x: "x = (name, b, l)"
    by (cases x)
  have eq: "step env s (Subscribe name b l) =
      ((fst s)\<lparr>registered := registered (fst s) @ [(name, b, l)]\<rparr>,
       (snd s)\<lparr>engine := signal env (engine (snd s)) (Subscribe name b l)\<rparr>)"
    using Cons.prems by (simp add: step_def subscribe_def addListener_def Let_def)
  have "maxListeners (fst (step env s (Subscribe name b l))) = 0"
    using Cons.prems by (simp add: eq)
  from Cons.IH [OF this] show ?case
    by (simp add: x run_Cons) (simp add: eq)
qed


text \<open>
  C10. The constructor sets the limit of listeners to 0, which is no limit: whatever
  listeners are subscribed to the controller, and however many, all of them are
  registered, in order, no warning is given, and a notification emitted then is delivered
  to every listener subscribed under its name.
\<close>

theorem no_listener_limit:
  "registered (fst (run env (RecorderApp p ws, w) (map (\<lambda>(name, b, l). Subscribe name b l) subs)))
     = subs \<and>
   warnings (snd (run env (RecorderApp p ws, w) (map (\<lambda>(name, b, l). Subscribe name b l) subs)))
     = warnings w \<and>
   delivered (snd (emit n
       (fst (run env (RecorderApp p ws, w) (map (\<lambda>(name, b, l). Subscribe name b l) subs)))
       (snd (run env (RecorderApp p ws, w) (map (\<lambda>(name, b, l). Subscribe name b l) subs)))))
     = delivered (snd (run env (RecorderApp p ws, w) (map (\<lambda>(name, b, l). Subscribe name b l) subs)))
       @ map (\<lambda>l. (l, n)) (listeners_for (notification_name n) subs)"
  using run_subscribe [of "(RecorderApp p ws, w)" env subs]
  by (simp add: emit_eq RecorderApp_def setMaxListeners_def)

text \<open>With the default limit instead, the eleventh listener of a name gives the warning.\<close>

lemma default_limit_warns:
  "snd (addListener ''event'' False 11
     ((newEmitter :: nat emitter)\<lparr>registered := map (\<lambda>i. (''event'', False, i)) [1..<11]\<rparr>))
     = Some (leak_warning ''event'')"
  by (simp add: addListener_def newEmitter_def defaultMaxListeners_def listeners_for_def
      upt_rec [of _ "numeral _"])


end
